theory Spec2Isabelle
  imports Main
begin

section \<open>Package reflect: kinds, runtime types, interface values\<close>

text \<open>
  The coarse kind of a Go type, as enumerated by \<^verbatim>\<open>reflect.Kind\<close>.
  \<^verbatim>\<open>Invalid\<close> is the kind of the zero \<^verbatim>\<open>reflect.Value\<close>.
\<close>

datatype kind =
    Invalid | Bool
  | IntK | Int8 | Int16 | Int32 | Int64
  | Uint | Uint8 | Uint16 | Uint32 | Uint64 | Uintptr
  | Float32 | Float64 | Complex64 | Complex128
  | Array | Chan | Func | Interface | Map | Pointer | Slice | String | Struct
  | UnsafePointer

text \<open>\<^verbatim>\<open>Kind.String()\<close>, which \<^verbatim>\<open>%s\<close> prints.\<close>

fun Kind_String :: "kind \<Rightarrow> string" where
  "Kind_String Invalid = ''invalid''"
| "Kind_String Bool = ''bool''"
| "Kind_String IntK = ''int''"
| "Kind_String Int8 = ''int8''"
| "Kind_String Int16 = ''int16''"
| "Kind_String Int32 = ''int32''"
| "Kind_String Int64 = ''int64''"
| "Kind_String Uint = ''uint''"
| "Kind_String Uint8 = ''uint8''"
| "Kind_String Uint16 = ''uint16''"
| "Kind_String Uint32 = ''uint32''"
| "Kind_String Uint64 = ''uint64''"
| "Kind_String Uintptr = ''uintptr''"
| "Kind_String Float32 = ''float32''"
| "Kind_String Float64 = ''float64''"
| "Kind_String Complex64 = ''complex64''"
| "Kind_String Complex128 = ''complex128''"
| "Kind_String Array = ''array''"
| "Kind_String Chan = ''chan''"
| "Kind_String Func = ''func''"
| "Kind_String Interface = ''interface''"
| "Kind_String Map = ''map''"
| "Kind_String Pointer = ''ptr''"
| "Kind_String Slice = ''slice''"
| "Kind_String String = ''string''"
| "Kind_String Struct = ''struct''"
| "Kind_String UnsafePointer = ''unsafe.Pointer''"

text \<open>
  A runtime type descriptor (\<^verbatim>\<open>reflect.Type\<close>): its kind, its printed form
  (\<^verbatim>\<open>String()\<close>) and, for a function type, the types of its declared parameters.
  Two descriptors of one kind with different printed forms are distinct concrete types.
\<close>

datatype rtype = RType (Kind: kind) (Type_String: string) (params: "rtype list")

text \<open>
  The dynamic value held by an interface: only whether it is a nil reference (a nil
  pointer, map, func, ...) matters to the code; everything else is opaque data.
\<close>

datatype data = NilRef | Data string

text \<open>
  A value of type \<^verbatim>\<open>interface{}\<close>: the untyped nil, or a dynamic type with its value.
\<close>

datatype iface = NilIface | Iface rtype data

text \<open>A \<^verbatim>\<open>reflect.Value\<close>: the zero Value, or a typed value.\<close>

datatype rvalue = ZeroValue | Value rtype data

datatype panic =
    NilDereference
  | ReflectPanic string
  | IndexOutOfRange
  | GobPanic string

datatype 'a result = Return 'a | Panic panic

fun reflect_ValueOf :: "iface \<Rightarrow> rvalue" where
  "reflect_ValueOf NilIface = ZeroValue"
| "reflect_ValueOf (Iface t d) = Value t d"

text \<open>\<^verbatim>\<open>reflect.TypeOf\<close> returns the nil \<^verbatim>\<open>Type\<close> for the untyped nil.\<close>

fun reflect_TypeOf :: "iface \<Rightarrow> rtype option" where
  "reflect_TypeOf NilIface = None"
| "reflect_TypeOf (Iface t d) = Some t"

fun Value_Kind :: "rvalue \<Rightarrow> kind" where
  "Value_Kind ZeroValue = Invalid"
| "Value_Kind (Value t d) = Kind t"

text \<open>\<^verbatim>\<open>Value.Type()\<close> panics on the zero Value.\<close>

fun Value_Type :: "rvalue \<Rightarrow> rtype result" where
  "Value_Type ZeroValue = Panic (ReflectPanic ''reflect: call of reflect.Value.Type on zero Value'')"
| "Value_Type (Value t d) = Return t"

text \<open>\<^verbatim>\<open>Type.NumIn()\<close> and \<^verbatim>\<open>Type.In(i)\<close> panic unless the kind is \<^verbatim>\<open>Func\<close>;
  \<^verbatim>\<open>In\<close> also panics out of range.\<close>

definition NumIn :: "rtype \<Rightarrow> nat result" where
  "NumIn t = (if Kind t \<noteq> Func then Panic (ReflectPanic ''reflect: NumIn of non-func type'')
              else Return (length (params t)))"

definition In :: "rtype \<Rightarrow> nat \<Rightarrow> rtype result" where
  "In t i = (if Kind t \<noteq> Func then Panic (ReflectPanic ''reflect: In of non-func type'')
             else if i < length (params t) then Return (params t ! i)
             else Panic IndexOutOfRange)"

text \<open>Indexing a slice: \<^verbatim>\<open>args[i]\<close> panics out of range.\<close>

definition index :: "'a list \<Rightarrow> nat \<Rightarrow> 'a result" where
  "index xs i = (if i < length xs then Return (xs ! i) else Panic IndexOutOfRange)"

section \<open>Errors\<close>

text \<open>
  An \<^verbatim>\<open>error\<close> value: the message built by \<^verbatim>\<open>fmt.Errorf\<close>, an error of the
  operating system or the standard library, or \<^verbatim>\<open>*exec.ExitError\<close> carrying the exit code.
\<close>

datatype error = Errorf string | LibError string | ExitError int

section \<open>The operating system and the standard library, as seen by one call\<close>

text \<open>An \<^verbatim>\<open>*os.File\<close> that is not nil, known by its name.\<close>

datatype os_file = File (File_Name: string)

text \<open>An \<^verbatim>\<open>*os.Process\<close> that is not nil, known by its pid.\<close>

datatype process = Proc nat

text \<open>An \<^verbatim>\<open>*os.ProcessState\<close> that is not nil: the exit code of a reaped process.\<close>

datatype process_state = Exited int

text \<open>\<^verbatim>\<open>syscall.SysProcAttr\<close> is passed through and never inspected.\<close>

datatype sys_proc_attr = Attr string

text \<open>
  What one call of the package reads from its surroundings. \<open>nameVar\<close> and \<open>argsVar\<close>
  are package constants declared outside \<^verbatim>\<open>fork.go\<close>, so they are parameters here;
  \<^verbatim>\<open>os.Args\<close> starts with the program name, \<open>os_Args0\<close>. The last three fields are
  the answers of the operating system to creating the temporary file, starting the
  child and reaping it (\<open>Inl\<close> is the error).
\<close>

record world =
  nameVar :: string
  argsVar :: string
  os_Executable :: "string \<times> error option"
  os_Args0 :: string
  os_Environ :: "string list"
  os_Stdin :: os_file
  os_Stdout :: os_file
  os_Stderr :: os_file
  ioutil_TempFile :: "error + os_file"
  os_StartProcess :: "error + process"
  Process_Wait :: "error + process_state"

text \<open>
  \<^verbatim>\<open>exec.Cmd\<close>, with the fields the package touches and \<open>Dir\<close> standing for those it
  never touches. \<^verbatim>\<open>Stdin\<close>, \<^verbatim>\<open>Stdout\<close> and \<^verbatim>\<open>Stderr\<close> are interfaces assigned from
  \<^verbatim>\<open>*os.File\<close>: \<open>None\<close> is an interface holding no file (nil, or a nil \<^verbatim>\<open>*os.File\<close>),
  for which the child gets the null device or a closed descriptor, never a stream of
  the parent.
\<close>

record Cmd =
  Path :: string
  Args :: "string list"
  Env :: "string list"
  Dir :: string
  Cmd_Stdin :: "os_file option"
  Cmd_Stdout :: "os_file option"
  Cmd_Stderr :: "os_file option"
  Cmd_SysProcAttr :: "sys_proc_attr option"
  Cmd_Process :: "process option"
  Cmd_ProcessState :: "process_state option"

text \<open>The zero value \<^verbatim>\<open>exec.Cmd{}\<close>.\<close>

definition zero_Cmd :: Cmd where
  "zero_Cmd = \<lparr>Path = [], Args = [], Env = [], Dir = [],
     Cmd_Stdin = None, Cmd_Stdout = None, Cmd_Stderr = None,
     Cmd_SysProcAttr = None, Cmd_Process = None, Cmd_ProcessState = None\<rparr>"

text \<open>
  What a call does to the outside: the temporary file it creates, each value handed to
  the gob encoder writing to that file, the closing of the file, and the child process
  started, with the configuration it was started from.
\<close>

datatype event =
    CreateTemp os_file
  | Encode os_file rvalue
  | Close os_file
  | Started Cmd process

text \<open>
  \<^verbatim>\<open>(*exec.Cmd).Start\<close> of the standard library: it refuses a command that has a
  process already; otherwise the operating system starts the child or fails, and only
  on success the field \<^verbatim>\<open>Process\<close> is set.
\<close>

definition Cmd_Start :: "world \<Rightarrow> Cmd \<Rightarrow> error option \<times> Cmd \<times> event list" where
  "Cmd_Start w c =
     (if Cmd_Process c \<noteq> None then (Some (LibError ''exec: already started''), c, [])
      else case os_StartProcess w of
             Inl err \<Rightarrow> (Some err, c, [])
           | Inr p \<Rightarrow> (None, c\<lparr>Cmd_Process := Some p\<rparr>, [Started c p]))"

text \<open>
  \<^verbatim>\<open>(*exec.Cmd).Wait\<close> of the standard library: it fails on a command that was not
  started or was waited for already; otherwise it records the state the operating
  system reports, and returns an \<^verbatim>\<open>ExitError\<close> when the exit code is not zero.
\<close>

definition Cmd_Wait :: "world \<Rightarrow> Cmd \<Rightarrow> error option \<times> Cmd" where
  "Cmd_Wait w c =
     (if Cmd_Process c = None then (Some (LibError ''exec: not started''), c)
      else if Cmd_ProcessState c \<noteq> None then (Some (LibError ''exec: Wait was already called''), c)
      else case Process_Wait w of
             Inl err \<Rightarrow> (Some err, c)
           | Inr (Exited code) \<Rightarrow>
               (if code = 0 then None else Some (ExitError code),
                c\<lparr>Cmd_ProcessState := Some (Exited code)\<rparr>))"

text \<open>
  \<^verbatim>\<open>(*gob.Encoder).EncodeValue\<close>: the package discards the error it returns, so only
  its documented panic is kept, on a nil pointer.
\<close>

fun EncodeValue :: "rvalue \<Rightarrow> unit result" where
  "EncodeValue ZeroValue = Return ()"
| "EncodeValue (Value t d) =
     (if Kind t = Pointer \<and> d = NilRef
      then Panic (GobPanic (''gob: cannot encode nil pointer of type '' @ Type_String t))
      else Return ())"

section \<open>The launch descriptor\<close>

record Function =
  SysProcAttr :: "sys_proc_attr option"
  Process :: "process option"
  ProcessState :: "process_state option"
  Name :: string
  Stdout :: "os_file option"
  Stderr :: "os_file option"
  Stdin :: "os_file option"
  Command :: Cmd
  fn :: rvalue

text \<open>The zero value \<^verbatim>\<open>Function{}\<close>.\<close>

definition zero_Function :: Function where
  "zero_Function = \<lparr>SysProcAttr = None, Process = None, ProcessState = None, Name = [],
     Stdout = None, Stderr = None, Stdin = None, Command = zero_Cmd, fn = ZeroValue\<rparr>"

section \<open>Construction\<close>

text \<open>
  \<^verbatim>\<open>NewFork\<close> (lines 45 to 65). The result is \<open>None\<close> for the nil pointer it returns
  when the target is not of kind \<^verbatim>\<open>Func\<close>.
\<close>

definition NewFork :: "world \<Rightarrow> string \<Rightarrow> iface \<Rightarrow> string list \<Rightarrow> Function option" where
  "NewFork w n target args =
     (let c = zero_Cmd\<lparr>Path := fst (os_Executable w),
                       Args := (if length args = 0 then [os_Args0 w] else args),
                       Cmd_Stderr := Some (os_Stderr w),
                       Cmd_Stdout := Some (os_Stdout w),
                       Cmd_Stdin := Some (os_Stdin w)\<rparr>;
          f = zero_Function\<lparr>Command := c, fn := reflect_ValueOf target\<rparr>
      in if Value_Kind (fn f) \<noteq> Func then None else Some (f\<lparr>Name := n\<rparr>))"

section \<open>Signature validation\<close>

text \<open>
  The loop of \<^verbatim>\<open>validateArgs\<close> (lines 140 to 144), from index \<open>i\<close> up to \<open>n = t.NumIn()\<close>.
  The left operand \<^verbatim>\<open>t.In(i).Kind()\<close> is evaluated first; \<^verbatim>\<open>reflect.TypeOf(args[i])\<close>
  is the nil \<^verbatim>\<open>Type\<close> for an untyped nil argument, and calling \<^verbatim>\<open>Kind()\<close> on it is a
  nil dereference. The message has the literal \<^verbatim>\<open>(1)\<close>, then the kind of the argument,
  then the kind of the parameter.
\<close>

function validateArgs_loop :: "rtype \<Rightarrow> iface list \<Rightarrow> nat \<Rightarrow> nat \<Rightarrow> error option result" where
  "validateArgs_loop t args n i =
     (if i < n then
        (case In t i of
           Panic p \<Rightarrow> Panic p
         | Return pt \<Rightarrow>
             (case index args i of
                Panic p \<Rightarrow> Panic p
              | Return a \<Rightarrow>
                  (case reflect_TypeOf a of
                     None \<Rightarrow> Panic NilDereference
                   | Some at \<Rightarrow>
                       if Kind pt \<noteq> Kind at
                       then Return (Some (Errorf (''argument mismatch (1) '' @ Kind_String (Kind at)
                                                   @ '' != '' @ Kind_String (Kind pt))))
                       else validateArgs_loop t args n (Suc i))))
      else Return None)"
  by pat_completeness auto
termination
  by (relation "measure (\<lambda>(t, args, n, i). n - i)") auto

text \<open>\<^verbatim>\<open>validateArgs\<close> (lines 135 to 146).\<close>

definition validateArgs :: "Function \<Rightarrow> iface list \<Rightarrow> error option result" where
  "validateArgs f args =
     (case Value_Type (fn f) of
        Panic p \<Rightarrow> Panic p
      | Return t \<Rightarrow>
          (case NumIn t of
             Panic p \<Rightarrow> Panic p
           | Return n \<Rightarrow>
               if length args \<noteq> n
               then Return (Some (Errorf (''incorrect number of args for: '' @ Type_String t)))
               else validateArgs_loop t args n 0))"

section \<open>Launch, relaunch and wait\<close>

text \<open>The loop of lines 84 to 86 (and 113 to 115), writing to the temporary file \<open>af\<close>.\<close>

fun encode_loop :: "os_file \<Rightarrow> iface list \<Rightarrow> event list \<times> panic option" where
  "encode_loop af [] = ([], None)"
| "encode_loop af (iv # rest) =
     (case EncodeValue (reflect_ValueOf iv) of
        Panic p \<Rightarrow> ([], Some p)
      | Return u \<Rightarrow>
          (case encode_loop af rest of
             (evs, r) \<Rightarrow> (Encode af (reflect_ValueOf iv) # evs, r)))"

text \<open>
  \<^verbatim>\<open>Fork\<close> (lines 68 to 93). The result is the returned error or the panic, the
  descriptor as the call leaves it, and what the call did to the outside.
  When \<^verbatim>\<open>ioutil.TempFile\<close> fails, \<^verbatim>\<open>af\<close> is nil and line 79 calls \<^verbatim>\<open>af.Name()\<close>
  before line 80 looks at \<^verbatim>\<open>err\<close>: a nil dereference.
\<close>

definition Fork :: "world \<Rightarrow> Function \<Rightarrow> iface list \<Rightarrow> error option result \<times> Function \<times> event list" where
  "Fork w f args =
     (case validateArgs f args of
        Panic p \<Rightarrow> (Panic p, f, [])
      | Return (Some err) \<Rightarrow> (Return (Some err), f, [])
      | Return None \<Rightarrow>
          (let c1 = (Command f)\<lparr>Cmd_Stderr := Stderr f, Cmd_Stdout := Stdout f,
                                Cmd_Stdin := Stdin f, Cmd_SysProcAttr := SysProcAttr f,
                                Env := os_Environ w @ [nameVar w @ ''='' @ Name f]\<rparr>
           in case ioutil_TempFile w of
                Inl err \<Rightarrow> (Panic NilDereference, f\<lparr>Command := c1\<rparr>, [])
              | Inr af \<Rightarrow>
                  (let c2 = c1\<lparr>Env := Env c1 @ [argsVar w @ ''='' @ File_Name af]\<rparr>
                   in case encode_loop af args of
                        (evs, Some p) \<Rightarrow> (Panic p, f\<lparr>Command := c2\<rparr>, CreateTemp af # evs)
                      | (evs, None) \<Rightarrow>
                          (case Cmd_Start w c2 of
                             (Some err, c3, started) \<Rightarrow>
                               (Return (Some err), f\<lparr>Command := c3\<rparr>,
                                CreateTemp af # evs @ [Close af] @ started)
                           | (None, c3, started) \<Rightarrow>
                               (Return None, f\<lparr>Command := c3, Process := Cmd_Process c3\<rparr>,
                                CreateTemp af # evs @ [Close af] @ started)))))"

text \<open>\<^verbatim>\<open>ReFork\<close> (lines 96 to 122).\<close>

definition ReFork :: "world \<Rightarrow> Function \<Rightarrow> iface list \<Rightarrow> error option result \<times> Function \<times> event list" where
  "ReFork w f args =
     (let previous = Command f;
          c1 = zero_Cmd\<lparr>Path := fst (os_Executable w), Args := Args previous,
                        Cmd_Stderr := Stderr f, Cmd_Stdout := Stdout f,
                        Cmd_Stdin := Stdin f, Cmd_SysProcAttr := SysProcAttr f,
                        Env := os_Environ w @ [nameVar w @ ''='' @ Name f]\<rparr>
      in case ioutil_TempFile w of
           Inl err \<Rightarrow> (Panic NilDereference, f\<lparr>Command := c1\<rparr>, [])
         | Inr af \<Rightarrow>
             (let c2 = c1\<lparr>Env := Env c1 @ [argsVar w @ ''='' @ File_Name af]\<rparr>
              in case encode_loop af args of
                   (evs, Some p) \<Rightarrow> (Panic p, f\<lparr>Command := c2\<rparr>, CreateTemp af # evs)
                 | (evs, None) \<Rightarrow>
                     (case Cmd_Start w c2 of
                        (Some err, c3, started) \<Rightarrow>
                          (Return (Some err), f\<lparr>Command := c3\<rparr>,
                           CreateTemp af # evs @ [Close af] @ started)
                      | (None, c3, started) \<Rightarrow>
                          (Return None, f\<lparr>Command := c3, Process := Cmd_Process c3\<rparr>,
                           CreateTemp af # evs @ [Close af] @ started))))"

text \<open>\<^verbatim>\<open>Wait\<close> (lines 125 to 131).\<close>

definition Wait :: "world \<Rightarrow> Function \<Rightarrow> error option \<times> Function" where
  "Wait w f =
     (case Cmd_Wait w (Command f) of
        (Some err, c) \<Rightarrow> (Some err, f\<lparr>Command := c\<rparr>)
      | (None, c) \<Rightarrow> (None, f\<lparr>Command := c, ProcessState := Cmd_ProcessState c\<rparr>))"

section \<open>The launch steps, and runs of calls\<close>

text \<open>
  Lines 72 to 92 of \<^verbatim>\<open>Fork\<close>, the steps 2 to 5 of a launch: what \<^verbatim>\<open>Fork\<close> does once
  validation has passed.
\<close>

definition Fork_steps_2_to_5 :: "world \<Rightarrow> Function \<Rightarrow> iface list \<Rightarrow> error option result \<times> Function \<times> event list" where
  "Fork_steps_2_to_5 w f args =
     (let c1 = (Command f)\<lparr>Cmd_Stderr := Stderr f, Cmd_Stdout := Stdout f,
                           Cmd_Stdin := Stdin f, Cmd_SysProcAttr := SysProcAttr f,
                           Env := os_Environ w @ [nameVar w @ ''='' @ Name f]\<rparr>
      in case ioutil_TempFile w of
           Inl err \<Rightarrow> (Panic NilDereference, f\<lparr>Command := c1\<rparr>, [])
         | Inr af \<Rightarrow>
             (let c2 = c1\<lparr>Env := Env c1 @ [argsVar w @ ''='' @ File_Name af]\<rparr>
              in case encode_loop af args of
                   (evs, Some p) \<Rightarrow> (Panic p, f\<lparr>Command := c2\<rparr>, CreateTemp af # evs)
                 | (evs, None) \<Rightarrow>
                     (case Cmd_Start w c2 of
                        (Some err, c3, started) \<Rightarrow>
                          (Return (Some err), f\<lparr>Command := c3\<rparr>,
                           CreateTemp af # evs @ [Close af] @ started)
                      | (None, c3, started) \<Rightarrow>
                          (Return None, f\<lparr>Command := c3, Process := Cmd_Process c3\<rparr>,
                           CreateTemp af # evs @ [Close af] @ started))))"

text \<open>
  A brand-new process configuration: the zero \<^verbatim>\<open>exec.Cmd\<close> with the path of the
  running executable and the given argument vector.
\<close>

definition new_Cmd :: "world \<Rightarrow> string list \<Rightarrow> Cmd" where
  "new_Cmd w argv = zero_Cmd\<lparr>Path := fst (os_Executable w), Args := argv\<rparr>"

text \<open>
  A call on a descriptor: one of the three methods, or the caller setting the stream
  and attribute fields. The process handle and the terminal state are read-only to the
  caller. Every call comes with the surroundings it runs in.
\<close>

datatype call =
    Call_Fork "iface list"
  | Call_ReFork "iface list"
  | Call_Wait
  | Set_Fields "os_file option" "os_file option" "os_file option" "sys_proc_attr option"

text \<open>The descriptor a call leaves behind, whatever it returns.\<close>

fun step :: "Function \<Rightarrow> world \<times> call \<Rightarrow> Function" where
  "step f (w, Call_Fork args) = fst (snd (Fork w f args))"
| "step f (w, Call_ReFork args) = fst (snd (ReFork w f args))"
| "step f (w, Call_Wait) = snd (Wait w f)"
| "step f (w, Set_Fields si so se a) = f\<lparr>Stdin := si, Stdout := so, Stderr := se, SysProcAttr := a\<rparr>"

fun run :: "Function \<Rightarrow> (world \<times> call) list \<Rightarrow> Function" where
  "run f [] = f"
| "run f (c # cs) = run (step f c) cs"

text \<open>
  The terminal state is set only when the process handle is, and the handle of the
  command only when the handle of the descriptor is.
\<close>

definition lifecycle_inv :: "Function \<Rightarrow> bool" where
  "lifecycle_inv f \<longleftrightarrow>
     (ProcessState f \<noteq> None \<longrightarrow> Process f \<noteq> None) \<and>
     (Cmd_Process (Command f) \<noteq> None \<longrightarrow> Process f \<noteq> None)"

section \<open>Notions the properties are stated with\<close>

text \<open>
  Position \<open>j\<close> is a kind match: the argument there is typed, and the kind of its
  dynamic type is the kind of the parameter declared at \<open>j\<close>.
\<close>

definition kind_match :: "rtype \<Rightarrow> iface list \<Rightarrow> nat \<Rightarrow> bool" where
  "kind_match t args j =
     (case reflect_TypeOf (args ! j) of
        None \<Rightarrow> False
      | Some at \<Rightarrow> Kind at = Kind (params t ! j))"

text \<open>The kinds of an argument list, \<open>None\<close> for an untyped nil.\<close>

definition arg_kinds :: "iface list \<Rightarrow> kind option list" where
  "arg_kinds args = map (\<lambda>a. map_option Kind (reflect_TypeOf a)) args"

section \<open>A concrete parent process and target\<close>

text \<open>
  The scenario of the specification: the target \<^verbatim>\<open>func(a int, b string)\<close> registered
  under the name \<^verbatim>\<open>worker\<close>, in a parent whose operating system answers every
  request with success.
\<close>

definition int_type :: rtype where
  "int_type = RType IntK ''int'' []"

definition string_type :: rtype where
  "string_type = RType String ''string'' []"

definition worker_type :: rtype where
  "worker_type = RType Func ''func(int, string)'' [int_type, string_type]"

definition worker :: iface where
  "worker = Iface worker_type (Data ''worker'')"

definition parent :: world where
  "parent = \<lparr>nameVar = ''NAME'', argsVar = ''ARGS'',
     os_Executable = (''/bin/prog'', None), os_Args0 = ''prog'',
     os_Environ = [''HOME=/root''],
     os_Stdin = File ''/dev/stdin'', os_Stdout = File ''/dev/stdout'',
     os_Stderr = File ''/dev/stderr'',
     ioutil_TempFile = Inr (File ''/tmp/gofork_1''),
     os_StartProcess = Inr (Proc 42),
     Process_Wait = Inr (Exited 0)\<rparr>"

text \<open>The descriptor \<^verbatim>\<open>NewFork("worker", worker)\<close> returns in that parent.\<close>

definition worker_desc :: Function where
  "worker_desc = \<lparr>SysProcAttr = None, Process = None, ProcessState = None,
     Name = ''worker'', Stdout = None, Stderr = None, Stdin = None,
     Command = \<lparr>Path = ''/bin/prog'', Args = [''prog''], Env = [], Dir = [],
          Cmd_Stdin = Some (File ''/dev/stdin''),
          Cmd_Stdout = Some (File ''/dev/stdout''),
          Cmd_Stderr = Some (File ''/dev/stderr''), Cmd_SysProcAttr = None,
          Cmd_Process = None, Cmd_ProcessState = None\<rparr>,
     fn = Value worker_type (Data ''worker'')\<rparr>"

text \<open>A target with two parameters of one kind, and two distinct struct types.\<close>

definition pair_type :: rtype where
  "pair_type = RType Func ''func(int, int)'' [int_type, int_type]"

definition point_type :: rtype where
  "point_type = RType Struct ''main.Point'' []"

definition size_type :: rtype where
  "size_type = RType Struct ''main.Size'' []"

definition draw_type :: rtype where
  "draw_type = RType Func ''func(main.Point)'' [point_type]"

text \<open>
  The call \<^verbatim>\<open>Fork(3, "x")\<close> on the worker: its arguments, the configuration its child
  is started from, and the descriptor it leaves behind.
\<close>

definition worker_args :: "iface list" where
  "worker_args = [Iface int_type (Data ''3''), Iface string_type (Data ''x'')]"

definition worker_child :: Cmd where
  "worker_child = \<lparr>Path = ''/bin/prog'', Args = [''prog''],
       Env = [''HOME=/root'', ''NAME=worker'', ''ARGS=/tmp/gofork_1''],
       Dir = [], Cmd_Stdin = None, Cmd_Stdout = None, Cmd_Stderr = None,
       Cmd_SysProcAttr = None, Cmd_Process = None, Cmd_ProcessState = None\<rparr>"

definition forked_desc :: Function where
  "forked_desc = worker_desc\<lparr>Command := worker_child\<lparr>Cmd_Process := Some (Proc 42)\<rparr>,
                              Process := Some (Proc 42)\<rparr>"

text \<open>
  The descriptor after a relaunch that started process 43, and the descriptor after the
  first child has been reaped with exit code 0.
\<close>

definition reforked_desc :: Function where
  "reforked_desc = forked_desc\<lparr>Command := worker_child\<lparr>Cmd_Process := Some (Proc 43)\<rparr>,
                                Process := Some (Proc 43)\<rparr>"

definition waited_desc :: Function where
  "waited_desc = forked_desc\<lparr>Command := worker_child\<lparr>Cmd_Process := Some (Proc 42),
                                                       Cmd_ProcessState := Some (Exited 0)\<rparr>,
                              ProcessState := Some (Exited 0)\<rparr>"

section \<open>The validation loop\<close>

declare validateArgs_loop.simps [simp del]

lemma loop_done: "validateArgs_loop t args n n = Return None"
  by (subst validateArgs_loop.simps) simp

lemma loop_step:
  assumes "Kind t = Func" "i < n" "n \<le> length (params t)" "n \<le> length args"
    and "kind_match t args i"
  shows "validateArgs_loop t args n i = validateArgs_loop t args n (Suc i)"
  using assms
  by (subst validateArgs_loop.simps)
     (auto simp: In_def index_def kind_match_def split: option.splits)

text \<open>The loop passes over a run of kind matches.\<close>

lemma loop_skip:
  assumes "Kind t = Func" "n \<le> length (params t)" "n \<le> length args"
    and "k \<le> n" and "\<forall>j. i \<le> j \<and> j < k \<longrightarrow> kind_match t args j"
    and "i \<le> k"
  shows "validateArgs_loop t args n i = validateArgs_loop t args n k"
  using assms(5,6)
proof (induction "k - i" arbitrary: i)
  case 0
  then show ?case by simp
next
  case (Suc d)
  then have lt: "i < k" and m: "kind_match t args i" by auto
  with assms(4) have "i < n" by simp
  then have "validateArgs_loop t args n i = validateArgs_loop t args n (Suc i)"
    using assms(1-3) m by (rule_tac loop_step) auto
  also have "\<dots> = validateArgs_loop t args n k"
    using Suc lt by (intro Suc.hyps) auto
  finally show ?case .
qed

lemma loop_mismatch:
  assumes "Kind t = Func" "k < n" "n \<le> length (params t)" "n \<le> length args"
    and "reflect_TypeOf (args ! k) = Some at" "Kind at \<noteq> Kind (params t ! k)"
  shows "validateArgs_loop t args n k =
           Return (Some (Errorf (''argument mismatch (1) '' @ Kind_String (Kind at)
                                  @ '' != '' @ Kind_String (Kind (params t ! k)))))"
  using assms
  by (subst validateArgs_loop.simps) (auto simp: In_def index_def)

lemma loop_nil:
  assumes "Kind t = Func" "k < n" "n \<le> length (params t)" "n \<le> length args"
    and "reflect_TypeOf (args ! k) = None"
  shows "validateArgs_loop t args n k = Panic NilDereference"
  using assms
  by (subst validateArgs_loop.simps) (auto simp: In_def index_def)

lemma validateArgs_Func:
  assumes "fn f = Value t d" "Kind t = Func"
  shows "validateArgs f args =
           (if length args \<noteq> length (params t)
            then Return (Some (Errorf (''incorrect number of args for: '' @ Type_String t)))
            else validateArgs_loop t args (length (params t)) 0)"
  using assms by (simp add: validateArgs_def NumIn_def)

lemma validateArgs_mismatch:
  assumes "fn f = Value t d" and "Kind t = Func" and "length args = length (params t)"
    and "k < length args" and "\<forall>j<k. kind_match t args j"
    and "reflect_TypeOf (args ! k) = Some at" and "Kind at \<noteq> Kind (params t ! k)"
  shows "validateArgs f args =
            Return (Some (Errorf (''argument mismatch (1) '' @ Kind_String (Kind at)
                                   @ '' != '' @ Kind_String (Kind (params t ! k)))))"
proof -
  let ?n = "length (params t)"
  have "validateArgs f args = validateArgs_loop t args ?n 0"
    using assms(1-3) by (simp add: validateArgs_Func)
  also have "\<dots> = validateArgs_loop t args ?n k"
    using assms(2-5) by (intro loop_skip) auto
  also have "\<dots> = Return (Some (Errorf (''argument mismatch (1) '' @ Kind_String (Kind at)
                                   @ '' != '' @ Kind_String (Kind (params t ! k)))))"
    using assms(2-4,6,7) by (intro loop_mismatch) auto
  finally show ?thesis .
qed

lemma validateArgs_nil:
  assumes "fn f = Value t d" and "Kind t = Func" and "length args = length (params t)"
    and "k < length args" and "\<forall>j<k. kind_match t args j"
    and "args ! k = NilIface"
  shows "validateArgs f args = Panic NilDereference"
proof -
  let ?n = "length (params t)"
  have "validateArgs f args = validateArgs_loop t args ?n 0"
    using assms(1-3) by (simp add: validateArgs_Func)
  also have "\<dots> = validateArgs_loop t args ?n k"
    using assms(2-5) by (intro loop_skip) auto
  also have "\<dots> = Panic NilDereference"
    using assms(2-4,6) by (intro loop_nil) auto
  finally show ?thesis .
qed

lemma validateArgs_match:
  assumes "fn f = Value t d" and "Kind t = Func" and "length args = length (params t)"
    and "\<forall>j<length args. kind_match t args j"
  shows "validateArgs f args = Return None"
proof -
  let ?n = "length (params t)"
  have "validateArgs f args = validateArgs_loop t args ?n 0"
    using assms(1-3) by (simp add: validateArgs_Func)
  also have "\<dots> = validateArgs_loop t args ?n ?n"
    using assms(2-4) by (intro loop_skip) auto
  finally show ?thesis by (simp add: loop_done)
qed

text \<open>A call that fails validation returns at line 70: nothing else has happened.\<close>

lemma Fork_validation_error:
  assumes "validateArgs f args = Return (Some err)"
  shows "Fork w f args = (Return (Some err), f, [])"
  using assms by (simp add: Fork_def)

lemma Fork_validation_panic:
  assumes "validateArgs f args = Panic p"
  shows "Fork w f args = (Panic p, f, [])"
  using assms by (simp add: Fork_def)

section \<open>Arity\<close>

text \<open>
  Claim C5. For a target with \<open>N\<close> declared parameters and an argument list of any
  other length, \<^verbatim>\<open>Fork\<close> returns the error
  \<^verbatim>\<open>incorrect number of args for: \<close> followed by the printed signature of the target.
  The descriptor is unchanged and the call has done nothing to the outside: no
  temporary file, no process.
\<close>

theorem Fork_arity_error:
  assumes "fn f = Value t d" and "Kind t = Func" and "length args \<noteq> length (params t)"
  shows "Fork w f args =
           (Return (Some (Errorf (''incorrect number of args for: '' @ Type_String t))), f, [])"
  using assms by (intro Fork_validation_error) (simp add: validateArgs_Func)

text \<open>The scenario of the specification: the worker called with \<^verbatim>\<open>(3)\<close>.\<close>

theorem Fork_arity_error_witness:
  "fn worker_desc = Value worker_type (Data ''worker'') \<and> Kind worker_type = Func
   \<and> length [Iface int_type (Data ''3'')] \<noteq> length (params worker_type)
   \<and> Fork parent worker_desc [Iface int_type (Data ''3'')] =
       (Return (Some (Errorf ''incorrect number of args for: func(int, string)'')),
        worker_desc, [])"
proof -
  have h1: "fn worker_desc = Value worker_type (Data ''worker'')"
    by (simp add: worker_desc_def)
  have h2: "Kind worker_type = Func"
    by (simp add: worker_type_def)
  have h3: "length [Iface int_type (Data ''3'')] \<noteq> length (params worker_type)"
    by (simp add: worker_type_def)
  show ?thesis
    using h1 h2 h3 Fork_arity_error [OF h1 h2 h3, of parent]
    by (simp add: worker_type_def)
qed

section \<open>Kind mismatch\<close>

text \<open>
  Claim C2, amended. For a target of kind \<^verbatim>\<open>Func\<close> and an argument list of the declared
  length, let \<open>k\<close> be the first position that is not a kind match, and let the argument
  there be typed. Then \<^verbatim>\<open>Fork\<close> returns the error \<^verbatim>\<open>argument mismatch (1) A != P\<close>,
  where \<open>A\<close> is the kind of the argument at \<open>k\<close> and \<open>P\<close> the kind of the parameter at \<open>k\<close>.
  The message carries the constant \<^verbatim>\<open>(1)\<close> and not \<open>k\<close>. The descriptor is unchanged and
  the call has done nothing to the outside.
\<close>

theorem Fork_kind_mismatch:
  assumes "fn f = Value t d" and "Kind t = Func" and "length args = length (params t)"
    and "k < length args" and "\<forall>j<k. kind_match t args j"
    and "reflect_TypeOf (args ! k) = Some at" and "Kind at \<noteq> Kind (params t ! k)"
  shows "Fork w f args =
           (Return (Some (Errorf (''argument mismatch (1) '' @ Kind_String (Kind at)
                                   @ '' != '' @ Kind_String (Kind (params t ! k))))), f, [])"
  using assms by (intro Fork_validation_error validateArgs_mismatch)

theorem Fork_kind_mismatch_witness:
  "fn worker_desc = Value worker_type (Data ''worker'') \<and> Kind worker_type = Func
   \<and> length [Iface int_type (Data ''3''), Iface int_type (Data ''4'')] = length (params worker_type)
   \<and> 1 < length [Iface int_type (Data ''3''), Iface int_type (Data ''4'')]
   \<and> kind_match worker_type [Iface int_type (Data ''3''), Iface int_type (Data ''4'')] 0
   \<and> reflect_TypeOf ([Iface int_type (Data ''3''), Iface int_type (Data ''4'')] ! 1) = Some int_type
   \<and> Kind int_type \<noteq> Kind (params worker_type ! 1)
   \<and> Fork parent worker_desc [Iface int_type (Data ''3''), Iface int_type (Data ''4'')] =
       (Return (Some (Errorf ''argument mismatch (1) int != string'')), worker_desc, [])"
proof -
  let ?args = "[Iface int_type (Data ''3''), Iface int_type (Data ''4'')]"
  have h1: "fn worker_desc = Value worker_type (Data ''worker'')"
    by (simp add: worker_desc_def)
  have h2: "Kind worker_type = Func"
    by (simp add: worker_type_def)
  have h3: "length ?args = length (params worker_type)"
    by (simp add: worker_type_def)
  have h4: "1 < length ?args"
    by simp
  have m0: "kind_match worker_type ?args 0"
    by (simp add: kind_match_def worker_type_def)
  have h5: "\<forall>j<1. kind_match worker_type ?args j"
    using m0 by simp
  have h6: "reflect_TypeOf (?args ! 1) = Some int_type"
    by simp
  have h7: "Kind int_type \<noteq> Kind (params worker_type ! 1)"
    by (simp add: worker_type_def int_type_def string_type_def)
  show ?thesis
    using h1 h2 h3 h4 m0 h6 h7 Fork_kind_mismatch [OF h1 h2 h3 h4 h5 h6 h7, of parent]
    by (simp add: worker_type_def int_type_def string_type_def)
qed

text \<open>
  Claim C2 as stated fails on the code. Mismatches at position 0 and at position 1 of
  \<^verbatim>\<open>func(int, int)\<close> give one and the same error, so the error does not identify the
  position; a list of the wrong length with a mismatching position gets the arity
  error; and an untyped nil before the mismatching position makes the call panic.
\<close>

theorem Fork_kind_mismatch_counterexample:
  "Fork parent (worker_desc\<lparr>fn := Value pair_type (Data ''pair'')\<rparr>)
        [Iface string_type (Data ''x''), Iface int_type (Data ''4'')] =
       (Return (Some (Errorf ''argument mismatch (1) string != int'')),
        worker_desc\<lparr>fn := Value pair_type (Data ''pair'')\<rparr>, [])
   \<and> Fork parent (worker_desc\<lparr>fn := Value pair_type (Data ''pair'')\<rparr>)
        [Iface int_type (Data ''3''), Iface string_type (Data ''x'')] =
       (Return (Some (Errorf ''argument mismatch (1) string != int'')),
        worker_desc\<lparr>fn := Value pair_type (Data ''pair'')\<rparr>, [])
   \<and> Fork parent worker_desc [Iface string_type (Data ''x'')] =
       (Return (Some (Errorf ''incorrect number of args for: func(int, string)'')),
        worker_desc, [])
   \<and> Fork parent worker_desc [NilIface, Iface int_type (Data ''4'')] =
       (Panic NilDereference, worker_desc, [])"
  by (simp add: Fork_def validateArgs_def NumIn_def In_def index_def pair_type_def
      worker_desc_def worker_type_def int_type_def string_type_def validateArgs_loop.simps)

section \<open>Untyped nil arguments\<close>

text \<open>
  Claim C10, amended. For a target of kind \<^verbatim>\<open>Func\<close> and an argument list of the declared
  length, if the argument at some position \<open>k\<close> is the untyped nil and every position
  before \<open>k\<close> is a kind match, then \<^verbatim>\<open>validateArgs\<close> calls \<^verbatim>\<open>Kind()\<close> on the nil
  \<^verbatim>\<open>reflect.Type\<close> and panics, and so does \<^verbatim>\<open>Fork\<close>, with the descriptor unchanged and
  nothing done to the outside.
\<close>

theorem Fork_nil_argument:
  assumes "fn f = Value t d" and "Kind t = Func" and "length args = length (params t)"
    and "k < length args" and "\<forall>j<k. kind_match t args j"
    and "args ! k = NilIface"
  shows "validateArgs f args = Panic NilDereference
         \<and> Fork w f args = (Panic NilDereference, f, [])"
  using assms validateArgs_nil [OF assms] by (simp add: Fork_validation_panic)

theorem Fork_nil_argument_witness:
  "fn worker_desc = Value worker_type (Data ''worker'') \<and> Kind worker_type = Func
   \<and> length [Iface int_type (Data ''3''), NilIface] = length (params worker_type)
   \<and> 1 < length [Iface int_type (Data ''3''), NilIface]
   \<and> kind_match worker_type [Iface int_type (Data ''3''), NilIface] 0
   \<and> [Iface int_type (Data ''3''), NilIface] ! 1 = NilIface
   \<and> validateArgs worker_desc [Iface int_type (Data ''3''), NilIface] = Panic NilDereference
   \<and> Fork parent worker_desc [Iface int_type (Data ''3''), NilIface] =
       (Panic NilDereference, worker_desc, [])"
proof -
  let ?args = "[Iface int_type (Data ''3''), NilIface]"
  have h1: "fn worker_desc = Value worker_type (Data ''worker'')"
    by (simp add: worker_desc_def)
  have h2: "Kind worker_type = Func"
    by (simp add: worker_type_def)
  have h3: "length ?args = length (params worker_type)"
    by (simp add: worker_type_def)
  have h4: "1 < length ?args"
    by simp
  have m0: "kind_match worker_type ?args 0"
    by (simp add: kind_match_def worker_type_def)
  have h5: "\<forall>j<1. kind_match worker_type ?args j"
    using m0 by simp
  have h6: "?args ! 1 = NilIface"
    by simp
  show ?thesis
    using h1 h2 h3 h4 m0 h6 Fork_nil_argument [OF h1 h2 h3 h4 h5 h6, of parent]
    by simp
qed

text \<open>
  Claim C10 as stated fails on the code: with a kind mismatch at position 0 the loop
  returns the mismatch error before it reaches the untyped nil at position 1.
\<close>

theorem Fork_nil_argument_counterexample:
  "Fork parent worker_desc [Iface string_type (Data ''x''), NilIface] =
     (Return (Some (Errorf ''argument mismatch (1) string != int'')), worker_desc, [])"
  by (simp add: Fork_def validateArgs_def NumIn_def In_def index_def
      worker_desc_def worker_type_def int_type_def string_type_def validateArgs_loop.simps)

section \<open>Validation looks at kinds only\<close>

lemma arg_kinds_match:
  assumes "arg_kinds args = map (\<lambda>p. Some (Kind p)) ps"
  shows "length args = length ps \<and> (\<forall>j<length args. kind_match (RType k s ps) args j)"
proof -
  have len: "length args = length ps"
    using assms by (metis arg_kinds_def length_map)
  have "kind_match (RType k s ps) args j" if "j < length args" for j
  proof -
    have "arg_kinds args ! j = Some (Kind (ps ! j))"
      using assms len that by simp
    then show ?thesis
      using that by (auto simp: arg_kinds_def kind_match_def)
  qed
  with len show ?thesis by simp
qed

text \<open>
  Claim C6. For a target of kind \<^verbatim>\<open>Func\<close>, an argument list whose kinds are, in order,
  the kinds of the declared parameters (so the lengths agree too) passes validation.
  The hypothesis speaks of kinds only: the concrete types of the arguments are free.
\<close>

theorem validateArgs_kinds_only:
  assumes "fn f = Value t d" and "Kind t = Func"
    and "arg_kinds args = map (\<lambda>p. Some (Kind p)) (params t)"
  shows "validateArgs f args = Return None"
proof -
  obtain k s ps where t: "t = RType k s ps" by (cases t)
  from arg_kinds_match [of args ps k s] assms(3) t
  have "length args = length (params t)" and "\<forall>j<length args. kind_match t args j"
    by simp_all
  with assms(1,2) show ?thesis by (intro validateArgs_match)
qed

text \<open>A \<^verbatim>\<open>main.Size\<close> passes for the \<^verbatim>\<open>main.Point\<close> that \<^verbatim>\<open>func(main.Point)\<close> declares.\<close>

theorem validateArgs_kinds_only_witness:
  "fn (worker_desc\<lparr>fn := Value draw_type (Data ''draw'')\<rparr>) = Value draw_type (Data ''draw'')
   \<and> Kind draw_type = Func
   \<and> arg_kinds [Iface size_type (Data ''{3 4}'')] = map (\<lambda>p. Some (Kind p)) (params draw_type)
   \<and> size_type \<noteq> point_type
   \<and> validateArgs (worker_desc\<lparr>fn := Value draw_type (Data ''draw'')\<rparr>)
        [Iface size_type (Data ''{3 4}'')] = Return None"
proof -
  have h1: "fn (worker_desc\<lparr>fn := Value draw_type (Data ''draw'')\<rparr>) = Value draw_type (Data ''draw'')"
    by simp
  have h2: "Kind draw_type = Func"
    by (simp add: draw_type_def)
  have h3: "arg_kinds [Iface size_type (Data ''{3 4}'')] = map (\<lambda>p. Some (Kind p)) (params draw_type)"
    by (simp add: arg_kinds_def draw_type_def size_type_def point_type_def)
  have h4: "size_type \<noteq> point_type"
    by (simp add: size_type_def point_type_def)
  show ?thesis
    using h1 h2 h3 h4 validateArgs_kinds_only [OF h1 h2 h3] by simp
qed

section \<open>Construction\<close>

text \<open>
  Claim C9. \<^verbatim>\<open>NewFork\<close> returns nil for the untyped nil and for every value whose type
  is not of kind \<^verbatim>\<open>Func\<close>; nothing else is returned, so no descriptor reaches the caller.
  For a value of kind \<^verbatim>\<open>Func\<close> it returns a descriptor that has the given name and
  holds the target.
\<close>

theorem NewFork_target:
  "NewFork w n NilIface args = None
   \<and> (Kind t \<noteq> Func \<longrightarrow> NewFork w n (Iface t d) args = None)
   \<and> (Kind t = Func \<longrightarrow>
        (\<exists>f. NewFork w n (Iface t d) args = Some f \<and> Name f = n \<and> fn f = Value t d))"
  by (simp add: NewFork_def Let_def)

theorem NewFork_target_witness:
  "NewFork parent ''worker'' NilIface [] = None
   \<and> Kind int_type \<noteq> Func
   \<and> NewFork parent ''worker'' (Iface int_type (Data ''3'')) [] = None
   \<and> Kind worker_type = Func
   \<and> NewFork parent ''worker'' worker [] = Some worker_desc
   \<and> Name worker_desc = ''worker''"
proof -
  have h1: "Kind int_type \<noteq> Func"
    by (simp add: int_type_def)
  have h2: "Kind worker_type = Func"
    by (simp add: worker_type_def)
  have h3: "NewFork parent ''worker'' worker [] = Some worker_desc"
    by (simp add: NewFork_def Let_def worker_def worker_desc_def worker_type_def
        parent_def zero_Function_def zero_Cmd_def)
  show ?thesis
    using h1 h2 h3 NewFork_target [of parent "''worker''" "[]" int_type "Data ''3''"]
    by (simp add: worker_desc_def)
qed

section \<open>The launch steps\<close>

lemma encode_loop_no_start:
  "encode_loop af args = (evs, r) \<Longrightarrow> Started c p \<notin> set evs"
  by (induction args arbitrary: evs r) (auto split: result.splits prod.splits)

lemma encode_loop_events:
  "encode_loop af args = (evs, None) \<Longrightarrow> evs = map (\<lambda>iv. Encode af (reflect_ValueOf iv)) args"
  by (induction args arbitrary: evs) (auto split: result.splits prod.splits)

lemma Fork_valid:
  "validateArgs f args = Return None \<Longrightarrow> Fork w f args = Fork_steps_2_to_5 w f args"
  by (simp add: Fork_def Fork_steps_2_to_5_def)

lemma Fork_invalid:
  "validateArgs f args \<noteq> Return None \<Longrightarrow> Fork w f args = (validateArgs f args, f, [])"
  by (auto simp: Fork_def split: result.splits option.splits)

lemma ReFork_steps:
  "ReFork w f args = Fork_steps_2_to_5 w (f\<lparr>Command := new_Cmd w (Args (Command f))\<rparr>) args"
  by (auto simp: ReFork_def Fork_steps_2_to_5_def new_Cmd_def Let_def zero_Cmd_def
      split: sum.splits prod.splits option.splits)

text \<open>What the steps leave behind, by cases of the three answers of the outside.\<close>

lemma steps_cases:
  assumes "Fork_steps_2_to_5 w f args = (r, f', evs)"
  obtains
    (tempfile) err where "ioutil_TempFile w = Inl err" "r = Panic NilDereference" "evs = []"
      "Process f' = Process f" "ProcessState f' = ProcessState f"
      "Cmd_Process (Command f') = Cmd_Process (Command f)"
  | (gob) af p where "ioutil_TempFile w = Inr af" "r = Panic p" "\<forall>c q. Started c q \<notin> set evs"
      "Process f' = Process f" "ProcessState f' = ProcessState f"
      "Cmd_Process (Command f') = Cmd_Process (Command f)"
  | (start) af err where "ioutil_TempFile w = Inr af" "r = Return (Some err)"
      "\<forall>c q. Started c q \<notin> set evs"
      "Process f' = Process f" "ProcessState f' = ProcessState f"
      "Cmd_Process (Command f') = Cmd_Process (Command f)"
  | (ok) af p where "ioutil_TempFile w = Inr af" "os_StartProcess w = Inr p" "r = Return None"
      "Cmd_Process (Command f) = None"
      "Process f' = Some p" "ProcessState f' = ProcessState f"
      "Cmd_Process (Command f') = Some p"
      "evs = CreateTemp af # map (\<lambda>iv. Encode af (reflect_ValueOf iv)) args @
         [Close af, Started ((Command f)\<lparr>Cmd_Stderr := Stderr f, Cmd_Stdout := Stdout f,
                           Cmd_Stdin := Stdin f, Cmd_SysProcAttr := SysProcAttr f,
                           Env := os_Environ w @ [nameVar w @ ''='' @ Name f,
                                                  argsVar w @ ''='' @ File_Name af]\<rparr>) p]"
proof (cases "ioutil_TempFile w")
  case (Inl err)
  with assms tempfile show ?thesis
    by (auto simp: Fork_steps_2_to_5_def Let_def)
next
  case (Inr af)
  obtain es ep where el: "encode_loop af args = (es, ep)" by (cases "encode_loop af args")
  show ?thesis
  proof (cases ep)
    case (Some p)
    with assms Inr el encode_loop_no_start [OF el] gob [of af p] show ?thesis
      by (auto simp: Fork_steps_2_to_5_def Let_def)
  next
    case None
    note es = encode_loop_events [OF el [unfolded None]]
    show ?thesis
    proof (cases "Cmd_Process (Command f) \<noteq> None")
      case True
      with assms Inr el None encode_loop_no_start [OF el]
        start [of af "LibError ''exec: already started''"] show ?thesis
        by (auto simp: Fork_steps_2_to_5_def Let_def Cmd_Start_def)
    next
      case False
      show ?thesis
      proof (cases "os_StartProcess w")
        case (Inl err)
        with assms Inr el None False encode_loop_no_start [OF el] start [of af err]
        show ?thesis
          by (auto simp: Fork_steps_2_to_5_def Let_def Cmd_Start_def)
      next
        case (Inr p)
        with assms \<open>ioutil_TempFile w = Inr af\<close> el None False es ok [of af p]
        show ?thesis
          by (auto simp: Fork_steps_2_to_5_def Let_def Cmd_Start_def)
      qed
    qed
  qed
qed

lemma Fork_cases:
  assumes "Fork w f args = (r, f', evs)"
  obtains (invalid) "validateArgs f args \<noteq> Return None" "r = validateArgs f args" "f' = f" "evs = []"
  | (valid) "validateArgs f args = Return None" "Fork_steps_2_to_5 w f args = (r, f', evs)"
proof (cases "validateArgs f args = Return None")
  case True
  with assms have "Fork_steps_2_to_5 w f args = (r, f', evs)"
    by (simp add: Fork_valid)
  with True show ?thesis by (rule valid)
next
  case False
  have "(r, f', evs) = (validateArgs f args, f, [])"
    using Fork_invalid [OF False, of w] assms by simp
  then have "r = validateArgs f args" "f' = f" "evs = []" by simp_all
  with False show ?thesis by (rule invalid)
qed

text \<open>The scenario of the specification: the worker called with \<^verbatim>\<open>(3, "x")\<close>.\<close>

lemma validateArgs_worker: "validateArgs worker_desc worker_args = Return None"
  by (simp add: validateArgs_def NumIn_def In_def index_def worker_desc_def worker_args_def
      worker_type_def int_type_def string_type_def validateArgs_loop.simps)

lemma Fork_worker:
  "Fork parent worker_desc worker_args =
     (Return None, forked_desc,
      [CreateTemp (File ''/tmp/gofork_1''),
       Encode (File ''/tmp/gofork_1'') (Value int_type (Data ''3'')),
       Encode (File ''/tmp/gofork_1'') (Value string_type (Data ''x'')),
       Close (File ''/tmp/gofork_1''),
       Started worker_child (Proc 42)])"
  by (simp add: Fork_valid [OF validateArgs_worker] Fork_steps_2_to_5_def Let_def)
     (simp add: worker_desc_def worker_args_def worker_child_def forked_desc_def parent_def
        Cmd_Start_def int_type_def string_type_def)

section \<open>Failure to create the temporary file\<close>

text \<open>
  Claim C1 says that the failure of \<^verbatim>\<open>ioutil.TempFile\<close> is returned as an error. The
  code does not do that: when validation has passed and the temporary file cannot be
  created, \<^verbatim>\<open>Fork\<close> panics with a nil dereference at line 79, before the check of
  \<^verbatim>\<open>err\<close> at line 80. No process is started and the process handle is left as it was.
\<close>

theorem Fork_TempFile_failure:
  assumes "validateArgs f args = Return None" and "ioutil_TempFile w = Inl err"
  shows "fst (Fork w f args) = Panic NilDereference
         \<and> snd (snd (Fork w f args)) = []
         \<and> Process (fst (snd (Fork w f args))) = Process f"
  using assms by (simp add: Fork_def)

theorem Fork_TempFile_failure_witness:
  "validateArgs worker_desc worker_args = Return None
   \<and> ioutil_TempFile (parent\<lparr>ioutil_TempFile := Inl (LibError ''no space left on device'')\<rparr>)
       = Inl (LibError ''no space left on device'')
   \<and> fst (Fork (parent\<lparr>ioutil_TempFile := Inl (LibError ''no space left on device'')\<rparr>)
             worker_desc worker_args) = Panic NilDereference
   \<and> fst (Fork (parent\<lparr>ioutil_TempFile := Inl (LibError ''no space left on device'')\<rparr>)
             worker_desc worker_args) \<noteq> Return (Some (LibError ''no space left on device''))"
proof -
  let ?w = "parent\<lparr>ioutil_TempFile := Inl (LibError ''no space left on device'')\<rparr>"
  have h2: "ioutil_TempFile ?w = Inl (LibError ''no space left on device'')"
    by simp
  show ?thesis
    using validateArgs_worker h2 Fork_TempFile_failure [OF validateArgs_worker h2]
    by simp
qed

section \<open>Standard streams\<close>

text \<open>
  Claim C3 says that a child of a descriptor with unset stream fields gets the streams
  of the parent. The code does not do that: lines 72 to 74 overwrite the defaults
  \<^verbatim>\<open>NewFork\<close> has put into the command with the unset fields, so every child that
  \<^verbatim>\<open>Fork\<close> starts for such a descriptor is started with no stream at all.
\<close>

theorem Fork_unset_streams:
  assumes "Stdin f = None" and "Stdout f = None" and "Stderr f = None"
    and "Fork w f args = (r, f', evs)" and "Started c p \<in> set evs"
  shows "Cmd_Stdin c = None \<and> Cmd_Stdout c = None \<and> Cmd_Stderr c = None"
  using assms(4)
proof (cases rule: Fork_cases)
  case invalid
  with assms(5) show ?thesis by simp
next
  case valid
  from valid(2) show ?thesis
  proof (cases rule: steps_cases)
    case (ok af q)
    with assms(1-3,5) show ?thesis by auto
  qed (use assms(5) in auto)
qed

theorem Fork_unset_streams_witness:
  "Stdin worker_desc = None \<and> Stdout worker_desc = None \<and> Stderr worker_desc = None
   \<and> fst (Fork parent worker_desc worker_args) = Return None
   \<and> Started worker_child (Proc 42) \<in> set (snd (snd (Fork parent worker_desc worker_args)))
   \<and> Cmd_Stdin worker_child = None \<and> Cmd_Stdout worker_child = None
   \<and> Cmd_Stderr worker_child = None
   \<and> Cmd_Stdin worker_child \<noteq> Some (os_Stdin parent)
   \<and> Cmd_Stdout worker_child \<noteq> Some (os_Stdout parent)
   \<and> Cmd_Stderr worker_child \<noteq> Some (os_Stderr parent)"
proof -
  have h1: "Stdin worker_desc = None" and h2: "Stdout worker_desc = None"
    and h3: "Stderr worker_desc = None"
    by (simp_all add: worker_desc_def)
  have h5: "Started worker_child (Proc 42) \<in> set
     [CreateTemp (File ''/tmp/gofork_1''),
       Encode (File ''/tmp/gofork_1'') (Value int_type (Data ''3'')),
       Encode (File ''/tmp/gofork_1'') (Value string_type (Data ''x'')),
       Close (File ''/tmp/gofork_1''),
       Started worker_child (Proc 42)]"
    by simp
  show ?thesis
    using h1 h2 h3 h5 Fork_unset_streams [OF h1 h2 h3 Fork_worker h5]
    by (simp add: Fork_worker)
qed

section \<open>The environment of the child\<close>

text \<open>
  Claim C7. Every child that \<^verbatim>\<open>Fork\<close> starts has as its environment the environment of
  the parent followed by exactly two variables: \<open>nameVar\<close> with the name of the
  descriptor, and \<open>argsVar\<close> with the name of the temporary file the call has created.
  Before the child is started, each argument in order has been handed to the encoder
  writing to that file, and the file has been closed.
\<close>

theorem Fork_child_environment:
  assumes "Fork w f args = (r, f', evs)" and "Started c p \<in> set evs"
  shows "\<exists>af. ioutil_TempFile w = Inr af
          \<and> Env c = os_Environ w @ [nameVar w @ ''='' @ Name f,
                                     argsVar w @ ''='' @ File_Name af]
          \<and> evs = CreateTemp af # map (\<lambda>iv. Encode af (reflect_ValueOf iv)) args
                    @ [Close af, Started c p]"
  using assms(1)
proof (cases rule: Fork_cases)
  case invalid
  with assms(2) show ?thesis by simp
next
  case valid
  from valid(2) show ?thesis
  proof (cases rule: steps_cases)
    case (ok af q)
    with assms(2) show ?thesis by auto
  qed (use assms(2) in auto)
qed

theorem Fork_child_environment_witness:
  "Started worker_child (Proc 42) \<in> set (snd (snd (Fork parent worker_desc worker_args)))
   \<and> ioutil_TempFile parent = Inr (File ''/tmp/gofork_1'')
   \<and> os_Environ parent = [''HOME=/root'']
   \<and> Env worker_child = [''HOME=/root'', ''NAME=worker'', ''ARGS=/tmp/gofork_1'']"
proof -
  have h2: "Started worker_child (Proc 42) \<in> set
     [CreateTemp (File ''/tmp/gofork_1''),
       Encode (File ''/tmp/gofork_1'') (Value int_type (Data ''3'')),
       Encode (File ''/tmp/gofork_1'') (Value string_type (Data ''x'')),
       Close (File ''/tmp/gofork_1''),
       Started worker_child (Proc 42)]"
    by simp
  have h3: "ioutil_TempFile parent = Inr (File ''/tmp/gofork_1'')"
    and h4: "os_Environ parent = [''HOME=/root'']"
    by (simp_all add: parent_def)
  have h5: "Env worker_child = [''HOME=/root'', ''NAME=worker'', ''ARGS=/tmp/gofork_1'']"
    by (simp add: worker_child_def)
  show ?thesis
    using h2 h3 h4 h5 Fork_child_environment [OF Fork_worker h2]
    by (simp add: Fork_worker)
qed

section \<open>Relaunch\<close>

lemma steps_success:
  assumes "Fork_steps_2_to_5 w f args = (Return None, f', evs)"
  shows "\<exists>p. os_StartProcess w = Inr p \<and> Process f' = Some p"
  using assms by (cases rule: steps_cases) auto

text \<open>
  Claim C4. \<^verbatim>\<open>ReFork\<close> is the launch steps 2 to 5 run on the descriptor whose command
  has been replaced by a brand-new configuration, built from the path of the running
  executable and the argument vector of the previous command and from nothing else of
  it; that configuration has no process handle and no terminal state. The same steps are
  what \<^verbatim>\<open>Fork\<close> runs when validation has passed, and \<^verbatim>\<open>ReFork\<close> runs them without
  validating. When \<^verbatim>\<open>ReFork\<close> succeeds, the process handle of the descriptor is the
  handle of the process just started.
\<close>

theorem ReFork_is_steps_2_to_5:
  "ReFork w f args =
     Fork_steps_2_to_5 w (f\<lparr>Command := new_Cmd w (Args (Command f))\<rparr>) args
   \<and> Fork w f args =
       (case validateArgs f args of
          Return None \<Rightarrow> Fork_steps_2_to_5 w f args
        | r \<Rightarrow> (r, f, []))
   \<and> Cmd_Process (new_Cmd w (Args (Command f))) = None
   \<and> Cmd_ProcessState (new_Cmd w (Args (Command f))) = None
   \<and> (fst (ReFork w f args) = Return None \<longrightarrow>
        (\<exists>p. os_StartProcess w = Inr p \<and> Process (fst (snd (ReFork w f args))) = Some p))"
proof -
  have a: "ReFork w f args =
     Fork_steps_2_to_5 w (f\<lparr>Command := new_Cmd w (Args (Command f))\<rparr>) args"
    by (rule ReFork_steps)
  have b: "Fork w f args =
       (case validateArgs f args of
          Return None \<Rightarrow> Fork_steps_2_to_5 w f args
        | r \<Rightarrow> (r, f, []))"
  proof (cases "validateArgs f args = Return None")
    case True
    then show ?thesis by (simp add: Fork_valid)
  next
    case False
    then show ?thesis
      by (simp add: Fork_invalid split: result.splits option.splits)
  qed
  have c: "Cmd_Process (new_Cmd w (Args (Command f))) = None"
    and d: "Cmd_ProcessState (new_Cmd w (Args (Command f))) = None"
    by (simp_all add: new_Cmd_def zero_Cmd_def)
  have e: "\<exists>p. os_StartProcess w = Inr p \<and> Process (fst (snd (ReFork w f args))) = Some p"
    if ok: "fst (ReFork w f args) = Return None"
  proof -
    obtain f' evs where "ReFork w f args = (Return None, f', evs)"
      using ok by (cases "ReFork w f args") auto
    then show ?thesis
      using steps_success [of w "f\<lparr>Command := new_Cmd w (Args (Command f))\<rparr>" args f' evs]
      by (simp add: a)
  qed
  from a b c d e show ?thesis by blast
qed

text \<open>
  A relaunch of the forked worker with no arguments at all: validation would reject
  them, the relaunch starts process 43 and replaces the handle of process 42.
\<close>

lemma ReFork_forked:
  "ReFork (parent\<lparr>os_StartProcess := Inr (Proc 43)\<rparr>) forked_desc [] =
     (Return None, reforked_desc,
      [CreateTemp (File ''/tmp/gofork_1''), Close (File ''/tmp/gofork_1''),
       Started worker_child (Proc 43)])"
  by (simp add: ReFork_def Let_def)
     (simp add: forked_desc_def reforked_desc_def worker_desc_def worker_child_def parent_def
        Cmd_Start_def zero_Cmd_def)

lemma validateArgs_forked_empty:
  "validateArgs forked_desc [] =
     Return (Some (Errorf ''incorrect number of args for: func(int, string)''))"
  by (simp add: validateArgs_def NumIn_def forked_desc_def worker_desc_def worker_type_def)

theorem ReFork_is_steps_2_to_5_witness:
  "Process forked_desc = Some (Proc 42)
   \<and> validateArgs forked_desc [] =
        Return (Some (Errorf ''incorrect number of args for: func(int, string)''))
   \<and> ReFork (parent\<lparr>os_StartProcess := Inr (Proc 43)\<rparr>) forked_desc [] =
       (Return None, reforked_desc,
        [CreateTemp (File ''/tmp/gofork_1''), Close (File ''/tmp/gofork_1''),
         Started worker_child (Proc 43)])
   \<and> Fork_steps_2_to_5 (parent\<lparr>os_StartProcess := Inr (Proc 43)\<rparr>)
        (forked_desc\<lparr>Command := new_Cmd (parent\<lparr>os_StartProcess := Inr (Proc 43)\<rparr>)
                                     (Args (Command forked_desc))\<rparr>) [] =
       (Return None, reforked_desc,
        [CreateTemp (File ''/tmp/gofork_1''), Close (File ''/tmp/gofork_1''),
         Started worker_child (Proc 43)])
   \<and> Process reforked_desc = Some (Proc 43)"
proof -
  have h1: "Process forked_desc = Some (Proc 42)"
    by (simp add: forked_desc_def)
  have h2: "Process reforked_desc = Some (Proc 43)"
    by (simp add: reforked_desc_def)
  show ?thesis
    using h1 h2 validateArgs_forked_empty ReFork_forked
      ReFork_is_steps_2_to_5 [of "parent\<lparr>os_StartProcess := Inr (Proc 43)\<rparr>" forked_desc "[]"]
    by simp
qed

section \<open>Lifecycle of the runtime state\<close>

lemma NewFork_fresh:
  assumes "NewFork w n target argv = Some f"
  shows "Process f = None" "ProcessState f = None" "Cmd_Process (Command f) = None"
  using assms
  by (auto simp: NewFork_def Let_def zero_Function_def zero_Cmd_def split: if_splits)

lemma steps_effect:
  assumes "Fork_steps_2_to_5 w f args = (r, f', evs)"
  shows "ProcessState f' = ProcessState f"
    and "r = Return None \<Longrightarrow> Process f' \<noteq> None \<and> Cmd_Process (Command f') = Process f'"
    and "r \<noteq> Return None \<Longrightarrow>
           Process f' = Process f \<and> Cmd_Process (Command f') = Cmd_Process (Command f)"
  using assms by (cases rule: steps_cases; simp)+

lemma Fork_effect:
  assumes "Fork w f args = (r, f', evs)"
  shows "ProcessState f' = ProcessState f"
    and "r = Return None \<Longrightarrow> Process f' \<noteq> None \<and> Cmd_Process (Command f') = Process f'"
    and "r \<noteq> Return None \<Longrightarrow>
           Process f' = Process f \<and> Cmd_Process (Command f') = Cmd_Process (Command f)"
  using assms steps_effect [of w f args r f' evs]
  by (cases rule: Fork_cases; simp)+

lemma ReFork_effect:
  assumes "ReFork w f args = (r, f', evs)"
  shows "ProcessState f' = ProcessState f"
    and "r = Return None \<Longrightarrow> Process f' \<noteq> None \<and> Cmd_Process (Command f') = Process f'"
    and "r \<noteq> Return None \<Longrightarrow> Process f' = Process f \<and> Cmd_Process (Command f') = None"
  using assms steps_effect [of w "f\<lparr>Command := new_Cmd w (Args (Command f))\<rparr>" args r f' evs]
  by (simp_all add: ReFork_steps new_Cmd_def zero_Cmd_def)

lemma Wait_effect:
  assumes "Wait w f = (r, f')"
  shows "Process f' = Process f"
    and "Cmd_Process (Command f') = Cmd_Process (Command f)"
    and "r = None \<Longrightarrow> ProcessState f' \<noteq> None \<and> Cmd_Process (Command f) \<noteq> None"
    and "r \<noteq> None \<Longrightarrow> ProcessState f' = ProcessState f"
  using assms
  by (auto simp: Wait_def Cmd_Wait_def
      split: if_splits sum.splits process_state.splits option.splits prod.splits)

lemma step_inv:
  assumes "lifecycle_inv f"
  shows "lifecycle_inv (step f wc)"
proof (cases wc)
  case (Pair w c)
  show ?thesis
  proof (cases c)
    case (Call_Fork args)
    obtain r f' evs where F: "Fork w f args = (r, f', evs)"
      by (cases "Fork w f args") auto
    from Fork_effect [OF F] assms show ?thesis
      unfolding Pair Call_Fork lifecycle_inv_def
      by (cases "r = Return None") (auto simp: F)
  next
    case (Call_ReFork args)
    obtain r f' evs where F: "ReFork w f args = (r, f', evs)"
      by (cases "ReFork w f args") auto
    from ReFork_effect [OF F] assms show ?thesis
      unfolding Pair Call_ReFork lifecycle_inv_def
      by (cases "r = Return None") (auto simp: F)
  next
    case Call_Wait
    obtain r f' where F: "Wait w f = (r, f')"
      by (cases "Wait w f") auto
    from Wait_effect [OF F] assms show ?thesis
      unfolding Pair Call_Wait lifecycle_inv_def
      by (cases "r = None") (auto simp: F)
  next
    case (Set_Fields si so se a)
    with assms show ?thesis
      by (simp add: Pair lifecycle_inv_def)
  qed
qed

lemma run_inv: "lifecycle_inv f \<Longrightarrow> lifecycle_inv (run f calls)"
  by (induction calls arbitrary: f) (simp_all add: step_inv)

lemma step_ProcessState:
  assumes "snd wc \<noteq> Call_Wait"
  shows "ProcessState (step f wc) = ProcessState f"
proof (cases wc)
  case (Pair w c)
  show ?thesis
  proof (cases c)
    case (Call_Fork args)
    obtain r f' evs where F: "Fork w f args = (r, f', evs)"
      by (cases "Fork w f args") auto
    from Fork_effect(1) [OF F] show ?thesis by (simp add: Pair Call_Fork F)
  next
    case (Call_ReFork args)
    obtain r f' evs where F: "ReFork w f args = (r, f', evs)"
      by (cases "ReFork w f args") auto
    from ReFork_effect(1) [OF F] show ?thesis by (simp add: Pair Call_ReFork F)
  next
    case Call_Wait
    with assms Pair show ?thesis by simp
  next
    case (Set_Fields si so se a)
    then show ?thesis by (simp add: Pair)
  qed
qed

lemma run_ProcessState:
  "\<forall>wc\<in>set calls. snd wc \<noteq> Call_Wait \<Longrightarrow> ProcessState (run f calls) = ProcessState f"
  by (induction calls arbitrary: f) (simp_all add: step_ProcessState)

text \<open>
  Claim C8. Let \<open>f0\<close> be a descriptor returned by \<^verbatim>\<open>NewFork\<close> and \<open>f\<close> the descriptor after
  any sequence of calls on it. The process handle and the terminal state of \<open>f0\<close> are
  empty. In \<open>f\<close> the terminal state is never set while the process handle is empty, and
  it is empty when the sequence has no \<^verbatim>\<open>Wait\<close>. A \<^verbatim>\<open>Fork\<close> on \<open>f\<close> that succeeds leaves
  a process handle; one that does not succeed leaves the handle as it was, so on an empty
  handle the handle is set exactly when \<^verbatim>\<open>Fork\<close> succeeds; when starting the process
  fails, the error of the start is the error returned. \<^verbatim>\<open>Fork\<close> and \<^verbatim>\<open>ReFork\<close> never
  touch the terminal state; a \<^verbatim>\<open>Wait\<close> that succeeds sets it, one that fails leaves it
  as it was.
\<close>

theorem lifecycle:
  assumes "NewFork w0 n target argv = Some f0" and "f = run f0 calls"
  shows "Process f0 = None \<and> ProcessState f0 = None
    \<and> (ProcessState f \<noteq> None \<longrightarrow> Process f \<noteq> None)
    \<and> ((\<forall>wc\<in>set calls. snd wc \<noteq> Call_Wait) \<longrightarrow> ProcessState f = None)
    \<and> (fst (Fork w f args) = Return None \<longrightarrow> Process (fst (snd (Fork w f args))) \<noteq> None)
    \<and> (fst (Fork w f args) \<noteq> Return None \<longrightarrow>
          Process (fst (snd (Fork w f args))) = Process f)
    \<and> (Process f = None \<longrightarrow>
          (Process (fst (snd (Fork w f args))) \<noteq> None \<longleftrightarrow> fst (Fork w f args) = Return None))
    \<and> ProcessState (fst (snd (Fork w f args))) = ProcessState f
    \<and> ProcessState (fst (snd (ReFork w f args))) = ProcessState f
    \<and> (fst (Wait w f) = None \<longrightarrow> ProcessState (snd (Wait w f)) \<noteq> None)
    \<and> (fst (Wait w f) \<noteq> None \<longrightarrow> ProcessState (snd (Wait w f)) = ProcessState f)
    \<and> (validateArgs f args = Return None \<and> ioutil_TempFile w = Inr af
         \<and> snd (encode_loop af args) = None \<and> Cmd_Process (Command f) = None
         \<and> os_StartProcess w = Inl err \<longrightarrow>
          fst (Fork w f args) = Return (Some err))"
proof -
  note fresh = NewFork_fresh [OF assms(1)]
  have "lifecycle_inv f0"
    using fresh by (simp add: lifecycle_inv_def)
  then have inv: "lifecycle_inv f"
    unfolding assms(2) by (rule run_inv)
  then have a: "ProcessState f \<noteq> None \<longrightarrow> Process f \<noteq> None"
    by (simp add: lifecycle_inv_def)
  have b: "(\<forall>wc\<in>set calls. snd wc \<noteq> Call_Wait) \<longrightarrow> ProcessState f = None"
    using run_ProcessState [of calls f0] fresh(2) assms(2) by simp
  obtain r f' evs where F: "Fork w f args = (r, f', evs)"
    by (cases "Fork w f args") auto
  note fe = Fork_effect [OF F]
  have c: "fst (Fork w f args) = Return None \<longrightarrow> Process (fst (snd (Fork w f args))) \<noteq> None"
    using fe(2) by (simp add: F)
  have d: "fst (Fork w f args) \<noteq> Return None \<longrightarrow>
          Process (fst (snd (Fork w f args))) = Process f"
    using fe(3) by (simp add: F)
  have e: "Process f = None \<longrightarrow>
          (Process (fst (snd (Fork w f args))) \<noteq> None \<longleftrightarrow> fst (Fork w f args) = Return None)"
    using c d by auto
  have g: "ProcessState (fst (snd (Fork w f args))) = ProcessState f"
    using fe(1) by (simp add: F)
  obtain r2 f2 evs2 where R: "ReFork w f args = (r2, f2, evs2)"
    by (cases "ReFork w f args") auto
  have h: "ProcessState (fst (snd (ReFork w f args))) = ProcessState f"
    using ReFork_effect(1) [OF R] by (simp add: R)
  obtain r3 f3 where W: "Wait w f = (r3, f3)"
    by (cases "Wait w f") auto
  note we = Wait_effect [OF W]
  have i: "fst (Wait w f) = None \<longrightarrow> ProcessState (snd (Wait w f)) \<noteq> None"
    using we(3) by (simp add: W)
  have j: "fst (Wait w f) \<noteq> None \<longrightarrow> ProcessState (snd (Wait w f)) = ProcessState f"
    using we(4) by (simp add: W)
  have k: "validateArgs f args = Return None \<and> ioutil_TempFile w = Inr af
         \<and> snd (encode_loop af args) = None \<and> Cmd_Process (Command f) = None
         \<and> os_StartProcess w = Inl err \<longrightarrow>
          fst (Fork w f args) = Return (Some err)"
    by (cases "encode_loop af args") (simp add: Fork_def Let_def Cmd_Start_def)
  from fresh(1,2) a b c d e g h i j k show ?thesis by blast
qed

lemma NewFork_worker: "NewFork parent ''worker'' worker [] = Some worker_desc"
  by (simp add: NewFork_def Let_def worker_def worker_desc_def worker_type_def
      parent_def zero_Function_def zero_Cmd_def)

lemma Wait_forked: "Wait parent forked_desc = (None, waited_desc)"
  by (simp add: Wait_def Cmd_Wait_def forked_desc_def waited_desc_def worker_child_def
      parent_def)

lemma Wait_worker: "Wait parent worker_desc = (Some (LibError ''exec: not started''), worker_desc)"
  by (simp add: Wait_def Cmd_Wait_def worker_desc_def)

lemma run_worker:
  "run worker_desc [(parent, Call_Fork worker_args), (parent, Call_Wait)] = waited_desc"
  by (simp add: Fork_worker Wait_forked)

theorem lifecycle_witness:
  "NewFork parent ''worker'' worker [] = Some worker_desc
   \<and> Process worker_desc = None \<and> ProcessState worker_desc = None
   \<and> Wait parent worker_desc = (Some (LibError ''exec: not started''), worker_desc)
   \<and> Fork parent worker_desc worker_args \<noteq> (Return None, worker_desc, [])
   \<and> fst (Fork parent worker_desc worker_args) = Return None
   \<and> Process forked_desc = Some (Proc 42) \<and> ProcessState forked_desc = None
   \<and> run worker_desc [(parent, Call_Fork worker_args), (parent, Call_Wait)] = waited_desc
   \<and> Process waited_desc = Some (Proc 42) \<and> ProcessState waited_desc = Some (Exited 0)
   \<and> Fork (parent\<lparr>os_StartProcess := Inl (LibError ''exec format error'')\<rparr>)
        worker_desc worker_args =
       (Return (Some (LibError ''exec format error'')),
        worker_desc\<lparr>Command := worker_child\<rparr>,
        [CreateTemp (File ''/tmp/gofork_1''),
         Encode (File ''/tmp/gofork_1'') (Value int_type (Data ''3'')),
         Encode (File ''/tmp/gofork_1'') (Value string_type (Data ''x'')),
         Close (File ''/tmp/gofork_1'')])"
proof -
  have q: "Fork (parent\<lparr>os_StartProcess := Inl (LibError ''exec format error'')\<rparr>)
        worker_desc worker_args =
       (Return (Some (LibError ''exec format error'')),
        worker_desc\<lparr>Command := worker_child\<rparr>,
        [CreateTemp (File ''/tmp/gofork_1''),
         Encode (File ''/tmp/gofork_1'') (Value int_type (Data ''3'')),
         Encode (File ''/tmp/gofork_1'') (Value string_type (Data ''x'')),
         Close (File ''/tmp/gofork_1'')])"
    by (simp add: Fork_valid [OF validateArgs_worker] Fork_steps_2_to_5_def Let_def)
       (simp add: worker_desc_def worker_args_def worker_child_def parent_def
          Cmd_Start_def int_type_def string_type_def)
  have h2: "waited_desc = run worker_desc [(parent, Call_Fork worker_args), (parent, Call_Wait)]"
    by (rule run_worker [symmetric])
  have p: "Process forked_desc = Some (Proc 42)" "ProcessState forked_desc = None"
    "Process waited_desc = Some (Proc 42)" "ProcessState waited_desc = Some (Exited 0)"
    by (simp_all add: forked_desc_def waited_desc_def worker_desc_def)
  show ?thesis
    using NewFork_worker Wait_worker run_worker p q
      lifecycle [OF NewFork_worker h2, of parent worker_args]
    by (simp add: Fork_worker)
qed

end
